theory Spec2Isabelle
  imports Complex_Main
begin

section \<open>Python values used by the agent\<close>

text \<open>
  Exceptions are values.  \<open>IndexError\<close> is what \<^verbatim>\<open>xs[-1]\<close> raises on an empty list;
  \<open>RuntimeError\<close> and \<open>ValueError\<close> carry the message the source gives them;
  \<open>ExternalFailure\<close> stands for whatever an external collaborator (model, vector store,
  configuration code) raises.
\<close>

datatype error =
    IndexError
  | RuntimeError string
  | ValueError string
  | ExternalFailure string

text \<open>
  A text is a list of code points below 256.  \<open>isspace\<close> is Python's \<^verbatim>\<open>str.isspace\<close> on one
  such code point: TAB, LF, VT, FF, CR, the separators FS, GS, RS, US, the space, NEL and
  the no-break space.  \<open>strip\<close> is \<^verbatim>\<open>str.strip()\<close> without argument.
\<close>

definition isspace :: "char \<Rightarrow> bool" where
  "isspace c = (of_char c \<in> set [9, 10, 11, 12, 13, 28, 29, 30, 31, 32, 133, 160 :: nat])"

definition strip :: "string \<Rightarrow> string" where
  "strip s = rev (dropWhile isspace (rev (dropWhile isspace s)))"

section \<open>Conversation state\<close>

text \<open>
  The message classes of the chat library, with the \<^verbatim>\<open>isinstance\<close> tests the agent makes
  as discriminators.  An assistant message carries the names of the tools it asks for.
\<close>

datatype message =
    is_HumanMessage: HumanMessage (content: string)
  | is_AIMessage: AIMessage (content: string) (tool_calls: "string list")
  | is_SystemMessage: SystemMessage (content: string)
  | is_ToolMessage: ToolMessage (content: string)

record attachment_info =
  attachment_id :: string
  attachment_name :: string
  mime_type :: string
  url :: string

record state =
  messages :: "message list"
  attachment :: "attachment_info option"

section \<open>Routing at the entry of the graph\<close>

text \<open>
  \<^verbatim>\<open>_routing_function\<close>: the last message decides.  \<^verbatim>\<open>state["messages"][-1]\<close> raises on an
  empty history.
\<close>

definition routing_function :: "state \<Rightarrow> error + string" where
  "routing_function st =
     (case messages st of
        [] \<Rightarrow> Inl IndexError
      | _ # _ \<Rightarrow>
          (let latest_messages = last (messages st)
           in if \<not> is_HumanMessage latest_messages
                 \<or> length (strip (content latest_messages)) = 0
              then Inr ''suggest_questions''
              else Inr ''query_or_respond''))"

section \<open>The graph under construction\<close>

text \<open>
  A state graph as the builder holds it: named nodes, plain edges, and conditional edges
  (a source, the function that picks the path, and the optional table from the function's
  answers to node names).  \<open>START\<close> and \<open>END\<close> are the library's two reserved names.
\<close>

type_synonym tool = string

datatype node_action = Method string | ToolNode "tool list"

datatype path_function = RoutingFunction | ToolsCondition

record state_graph =
  nodes :: "(string \<times> node_action) list"
  edges :: "(string \<times> string) list"
  branches :: "(string \<times> path_function \<times> (string \<times> string) list option) list"

definition START :: string where
  "START = ''__start__''"

definition END :: string where
  "END = ''__end__''"

definition StateGraph :: state_graph where
  "StateGraph = \<lparr>nodes = [], edges = [], branches = []\<rparr>"

definition add_node :: "string \<Rightarrow> node_action \<Rightarrow> state_graph \<Rightarrow> state_graph" where
  "add_node name action g = g\<lparr>nodes := nodes g @ [(name, action)]\<rparr>"

definition add_edge :: "string \<Rightarrow> string \<Rightarrow> state_graph \<Rightarrow> state_graph" where
  "add_edge start_key end_key g = g\<lparr>edges := edges g @ [(start_key, end_key)]\<rparr>"

definition add_conditional_edges ::
  "string \<Rightarrow> path_function \<Rightarrow> (string \<times> string) list option \<Rightarrow> state_graph \<Rightarrow> state_graph" where
  "add_conditional_edges source path path_map g =
     g\<lparr>branches := branches g @ [(source, path, path_map)]\<rparr>"

text \<open>
  Where a conditional edge can lead: the values of its table, or, without a table, the
  answers of the path function (the two literals of \<^verbatim>\<open>_routing_function\<close>; \<^verbatim>\<open>tools_condition\<close>
  answers \<^verbatim>\<open>"tools"\<close> or \<open>END\<close>).
\<close>

definition path_targets :: "path_function \<Rightarrow> (string \<times> string) list option \<Rightarrow> string list" where
  "path_targets path path_map =
     (case path_map of
        Some table \<Rightarrow> map snd table
      | None \<Rightarrow>
          (case path of
             RoutingFunction \<Rightarrow> [''suggest_questions'', ''query_or_respond'']
           | ToolsCondition \<Rightarrow> [''tools'', END]))"

definition successors :: "state_graph \<Rightarrow> string \<Rightarrow> string list" where
  "successors g n =
     map snd (filter (\<lambda>e. fst e = n) (edges g))
     @ concat (map (\<lambda>b. path_targets (fst (snd b)) (snd (snd b)))
                 (filter (\<lambda>b. fst b = n) (branches g)))"

definition predecessors :: "state_graph \<Rightarrow> string \<Rightarrow> string list" where
  "predecessors g n =
     map fst (filter (\<lambda>e. snd e = n) (edges g))
     @ map fst (filter (\<lambda>b. n \<in> set (path_targets (fst (snd b)) (snd (snd b)))) (branches g))"

section \<open>The agent\<close>

datatype checkpointer = Checkpointer string

record image_recognizer_configurer =
  tool :: "tool option"

text \<open>
  What the agent reads from its configurer: the checkpointer, the tools, the fields of the
  configuration it uses, the image recognizer's configurer and the chat model, whose
  \<^verbatim>\<open>ainvoke\<close> takes a prompt and returns a message or raises.
\<close>

record agent_configurer =
  checkpointer :: "checkpointer option"
  tools :: "tool list option"
  agent_name :: string
  language :: string
  respond_prompt :: string
  suggest_questions_prompt :: string
  image_recognizer_configurer :: "image_recognizer_configurer option"
  chat_model :: "message list \<Rightarrow> error + message"

record compiled_state_graph =
  builder :: state_graph
  graph_name :: string
  graph_checkpointer :: "checkpointer option"

datatype lifecycle = ON | OFF | RESTART

text \<open>
  Calls the agent makes on its collaborators, in the order it makes them.
\<close>

datatype call =
    GraphStream state
  | GraphAStream state
  | GraphGetStateHistory string
  | GraphGetState string
  | CheckpointerDeleteThread string
  | ChatModelInvoke "message list"

text \<open>
  The fields \<^verbatim>\<open>_status\<close>, \<^verbatim>\<open>_configurer\<close>, \<^verbatim>\<open>_graph\<close> and \<^verbatim>\<open>_is_configured\<close> of the
  class, and the calls made so far.
\<close>

record agent =
  status :: lifecycle
  configurer :: agent_configurer
  graph :: "compiled_state_graph option"
  is_configured :: bool
  trace :: "call list"

definition init :: "agent_configurer \<Rightarrow> agent" where
  "init c = \<lparr>status = ON, configurer = c, graph = None, is_configured = False, trace = []\<rparr>"

definition check_graph_available :: "agent \<Rightarrow> error + unit" where
  "check_graph_available a =
     (if \<not> is_configured a then
        Inl (RuntimeError ''The agent has not been configured yet. Please call `configure()` first.'')
      else if graph a = None then
        Inl (RuntimeError ''The agent graph has not been initialized yet. Please call `build_graph()` first.'')
      else if status a = OFF then
        Inl (RuntimeError ''The agent is turned off.'')
      else if status a = RESTART then
        Inl (RuntimeError ''The agent is restarting.'')
      else Inr ())"

text \<open>
  The four turn-serving operations: the guard first, then the call on the compiled graph.
  What the graph yields is the graph's business; the model records that it was called.
\<close>

definition stream :: "agent \<Rightarrow> state \<Rightarrow> error + agent" where
  "stream a input_state =
     (case check_graph_available a of
        Inl e \<Rightarrow> Inl e
      | Inr _ \<Rightarrow> Inr (a\<lparr>trace := trace a @ [GraphStream input_state]\<rparr>))"

definition astream :: "agent \<Rightarrow> state \<Rightarrow> error + agent" where
  "astream a input_state =
     (case check_graph_available a of
        Inl e \<Rightarrow> Inl e
      | Inr _ \<Rightarrow> Inr (a\<lparr>trace := trace a @ [GraphAStream input_state]\<rparr>))"

definition get_state_history :: "agent \<Rightarrow> string \<Rightarrow> error + agent" where
  "get_state_history a config =
     (case check_graph_available a of
        Inl e \<Rightarrow> Inl e
      | Inr _ \<Rightarrow> Inr (a\<lparr>trace := trace a @ [GraphGetStateHistory config]\<rparr>))"

definition get_state :: "agent \<Rightarrow> string \<Rightarrow> error + agent" where
  "get_state a config =
     (case check_graph_available a of
        Inl e \<Rightarrow> Inl e
      | Inr _ \<Rightarrow> Inr (a\<lparr>trace := trace a @ [GraphGetState config]\<rparr>))"

text \<open>
  \<^verbatim>\<open>delete_thread\<close>: no guard, only the test of the checkpointer.  The thread identifier
  is given by its text, \<^verbatim>\<open>str(thread_id)\<close>.
\<close>

definition delete_thread :: "agent \<Rightarrow> string \<Rightarrow> error + agent" where
  "delete_thread a thread_id =
     (case checkpointer (configurer a) of
        None \<Rightarrow> Inl (RuntimeError ''Checkpointer is still not configured yet.'')
      | Some cp \<Rightarrow> Inr (a\<lparr>trace := trace a @ [CheckpointerDeleteThread thread_id]\<rparr>))"

text \<open>
  \<^verbatim>\<open>build_graph\<close>: the two nodes, the tool nodes and their edges when the configurer has
  at least one tool, the conditional entry edge, then compilation.
\<close>

definition build_graph_topology :: "tool list option \<Rightarrow> state_graph" where
  "build_graph_topology ts =
     (let g = StateGraph;
          g = add_node ''query_or_respond'' (Method ''_query_or_respond'') g;
          g = add_node ''suggest_questions'' (Method ''_suggest_questions'') g;
          g = (case ts of
                 None \<Rightarrow> g
               | Some tls \<Rightarrow>
                   if length tls \<noteq> 0 then
                     (let g = add_node ''tools_1'' (ToolNode tls) g;
                          g = add_conditional_edges ''query_or_respond'' ToolsCondition
                                (Some [(''tools'', ''tools_1''), (END, END)]) g;
                          g = add_edge ''tools_1'' ''query_or_respond'' g;
                          g = add_node ''tools_2'' (ToolNode tls) g;
                          g = add_conditional_edges ''suggest_questions'' ToolsCondition
                                (Some [(''tools'', ''tools_2''), (END, END)]) g;
                          g = add_edge ''tools_2'' ''suggest_questions'' g
                      in g)
                   else g)
      in add_conditional_edges START RoutingFunction None g)"

definition build_graph :: "agent \<Rightarrow> agent" where
  "build_graph a =
     a\<lparr>graph := Some \<lparr>builder = build_graph_topology (tools (configurer a)),
                      graph_name = agent_name (configurer a),
                      graph_checkpointer = checkpointer (configurer a)\<rparr>\<rparr>"

section \<open>Lifecycle operations\<close>

text \<open>
  \<^verbatim>\<open>AgentConfigurer.async_configure\<close> and \<^verbatim>\<open>AgentConfigurer.sync_bm25\<close> belong to a class
  that is not among the sources, so each is a parameter: from the configurer it is called
  on, it gives the states the configurer passes through (the last one is the state it is
  left in) and the exception it raises, if any.
\<close>

type_synonym configurer_action = "agent_configurer \<Rightarrow> agent_configurer list \<times> error option"

definition configure :: "configurer_action \<Rightarrow> agent \<Rightarrow> bool \<Rightarrow> agent \<times> error option" where
  "configure async_configure a force =
     (if is_configured a \<and> \<not> force then (a, None)
      else
        (let (cs, raised) = async_configure (configurer a);
             a = a\<lparr>configurer := last (configurer a # cs)\<rparr>
         in case raised of
              Some e \<Rightarrow> (a, Some e)
            | None \<Rightarrow> (a\<lparr>is_configured := True\<rparr>, None)))"

text \<open>
  \<^verbatim>\<open>restart\<close> is a generator.  A run of it is the list of the progress events it yields,
  each with the agent as it is while the generator is suspended at that \<^verbatim>\<open>yield\<close>, the
  agent when the generator ends, and the exception that ended it, if any.
\<close>

record restart_run =
  restart_yielded :: "((string \<times> real) \<times> agent) list"
  restart_finished :: agent
  restart_raised :: "error option"

definition restart :: "configurer_action \<Rightarrow> agent \<Rightarrow> restart_run" where
  "restart async_configure a =
     (let statuses = [(''RESTARTING'', 0.0), (''RESTARTING'', 0.6), (''RESTARTED'', 1.0)];
          y0 = (statuses ! 0, a);
          a = a\<lparr>status := RESTART\<rparr>;
          (a, raised) = configure async_configure a True
      in case raised of
           Some e \<Rightarrow> \<lparr>restart_yielded = [y0], restart_finished = a, restart_raised = Some e\<rparr>
         | None \<Rightarrow>
             (let y1 = (statuses ! 1, a);
                  a = build_graph a;
                  a = a\<lparr>status := ON\<rparr>;
                  y2 = (statuses ! 2, a)
              in \<lparr>restart_yielded = [y0, y1, y2], restart_finished = a, restart_raised = None\<rparr>))"



section \<open>The two model-calling nodes\<close>

text \<open>
  Two things the nodes read are declared outside the sources: the table
  \<^verbatim>\<open>SUPPORTED_LANGUAGE_DICT\<close> (the configuration's language is one of its keys, so the
  lookup is a function) and \<^verbatim>\<open>str\<close> of an attachment.  Both are parameters.
\<close>

record constants =
  SUPPORTED_LANGUAGE_DICT :: "string \<Rightarrow> string"
  str_attachment :: "attachment_info \<Rightarrow> string"

datatype template_item = Fixed message | MessagesPlaceholder string

definition ATTACHMENT_INSTRUCTION :: "string \<Rightarrow> string" where
  "ATTACHMENT_INSTRUCTION att =
     ''You are given an attachment. There is the attachment information '' @ att @ ''.''
     @ [CHR 0x0A] @ ''You must do the following steps:''
     @ [CHR 0x0A] @ ''Step 1. Specify what attachment type you have by looking at a value of `mime_type` field of the attachment information.''
     @ [CHR 0x0A] @ ''Step 2. Select the correct recognition tool to use based on the attachment type.''
     @ [CHR 0x0A] @ ''Step 3. Call the selected recognition tool.''"

definition system_msgs :: "constants \<Rightarrow> agent \<Rightarrow> message list" where
  "system_msgs k a =
     (let lang = language (configurer a)
      in [SystemMessage (''You must answer in '' @ SUPPORTED_LANGUAGE_DICT k lang @ ''.''),
          SystemMessage (''Queries for using tools purpose must be in ''
                           @ SUPPORTED_LANGUAGE_DICT k lang @ ''.'')])"

text \<open>
  The test both nodes make on the recognizer:
  \<^verbatim>\<open>image_recognizer_configurer is None or image_recognizer_configurer.tool is None\<close>.
\<close>

definition recognizer_missing :: "agent \<Rightarrow> bool" where
  "recognizer_missing a =
     (case image_recognizer_configurer (configurer a) of
        None \<Rightarrow> True
      | Some irc \<Rightarrow> tool irc = None)"

text \<open>
  The prompt template each node builds.  The third test reads the last message, which
  raises on an empty history.
\<close>

definition query_or_respond_template ::
  "constants \<Rightarrow> agent \<Rightarrow> state \<Rightarrow> error + template_item list" where
  "query_or_respond_template k a st =
     (if attachment st \<noteq> None \<and> recognizer_missing a then
        Inr (map Fixed (system_msgs k a)
             @ [Fixed (HumanMessage (''You must only say the following sentence: I cannot recognize the attachment. ''
                                       @ ''Because I have not been configured the image recognizer yet.''))])
      else if attachment st \<noteq> None then
        Inr (map Fixed (system_msgs k a)
             @ [Fixed (SystemMessage (respond_prompt (configurer a))),
                MessagesPlaceholder ''messages'',
                Fixed (HumanMessage (ATTACHMENT_INSTRUCTION (str_attachment k (the (attachment st)))))])
      else if messages st = [] then Inl IndexError
      else if is_ToolMessage (last (messages st)) then
        Inr (map Fixed (system_msgs k a)
             @ [MessagesPlaceholder ''messages'',
                Fixed (SystemMessage (''You should not repeat the received recognition result, ''
                                        @ ''you just need to extract related information to doing your tasks.'')),
                Fixed (HumanMessage (''Tell me what you think about the attachment ''
                                       @ ''based on the received recognition result ''
                                       @ ''and the provided questions.''))])
      else
        Inr (map Fixed (system_msgs k a)
             @ [Fixed (SystemMessage (respond_prompt (configurer a))),
                MessagesPlaceholder ''messages'']))"

definition suggest_questions_template ::
  "constants \<Rightarrow> agent \<Rightarrow> state \<Rightarrow> error + template_item list" where
  "suggest_questions_template k a st =
     (if attachment st = None then
        Inr (map Fixed (system_msgs k a)
             @ [Fixed (HumanMessage (''You must only say the following sentence:''
                                       @ ''An error occurred while processing the attachment.''))])
      else if recognizer_missing a then
        Inr (map Fixed (system_msgs k a)
             @ [Fixed (HumanMessage (''You must only say the following sentence: I cannot recognize the attachment. ''
                                       @ ''Because I have not been configured the image recognizer yet.''))])
      else if messages st = [] then Inl IndexError
      else if is_ToolMessage (last (messages st)) then
        Inr (map Fixed (system_msgs k a)
             @ [MessagesPlaceholder ''messages'',
                Fixed (SystemMessage (''You should not repeat the received recognition result, ''
                                        @ ''you just need to extract related information to doing your tasks.'')),
                Fixed (HumanMessage (''Based on the received recognition result, you must do the following things:''
                                       @ [CHR 0x0A] @ ''1. Tell me what you think about the attachment.''
                                       @ [CHR 0x0A] @ ''2. Suggest some questions about the attachment.''))])
      else
        Inr (map Fixed (system_msgs k a)
             @ [Fixed (SystemMessage (suggest_questions_prompt (configurer a))),
                MessagesPlaceholder ''messages'',
                Fixed (HumanMessage (ATTACHMENT_INSTRUCTION (str_attachment k (the (attachment st)))))]))"

text \<open>
  \<^verbatim>\<open>prompt_template.ainvoke({"messages": ...})\<close>: fixed messages stay, the placeholder
  is replaced by the history.
\<close>

definition ainvoke_template :: "template_item list \<Rightarrow> message list \<Rightarrow> message list" where
  "ainvoke_template items msgs =
     concat (map (\<lambda>item. case item of Fixed m \<Rightarrow> [m] | MessagesPlaceholder v \<Rightarrow> msgs) items)"

text \<open>
  A node gives the calls it makes on collaborators and either the exception that ends it
  or its update of the state, \<^verbatim>\<open>{"messages": [response]}\<close>.
\<close>

definition call_model :: "agent \<Rightarrow> state \<Rightarrow> error + template_item list \<Rightarrow> call list \<times> (error + message list)" where
  "call_model a st template =
     (case template of
        Inl e \<Rightarrow> ([], Inl e)
      | Inr prompt_template \<Rightarrow>
          (let prompt = ainvoke_template prompt_template (messages st)
           in case chat_model (configurer a) prompt of
                Inl e \<Rightarrow> ([ChatModelInvoke prompt], Inl e)
              | Inr response \<Rightarrow> ([ChatModelInvoke prompt], Inr [response])))"

definition query_or_respond :: "constants \<Rightarrow> agent \<Rightarrow> state \<Rightarrow> call list \<times> (error + message list)" where
  "query_or_respond k a st = call_model a st (query_or_respond_template k a st)"

definition suggest_questions :: "constants \<Rightarrow> agent \<Rightarrow> state \<Rightarrow> call list \<times> (error + message list)" where
  "suggest_questions k a st = call_model a st (suggest_questions_template k a st)"

text \<open>
  The graph merges a node's update into the state by appending to the history.
\<close>

definition apply_update :: "state \<Rightarrow> message list \<Rightarrow> state" where
  "apply_update st update = st\<lparr>messages := messages st @ update\<rparr>"

section \<open>Text normalization for the lexical index\<close>

text \<open>
  \<^verbatim>\<open>str.lower\<close> on a code point below 256: the capital letters A to Z and the accented
  capitals from 192 to 222, the multiplication sign 215 apart, move up by 32.
\<close>

definition lower_char :: "char \<Rightarrow> char" where
  "lower_char c =
     (let n = of_char c :: nat
      in if (65 \<le> n \<and> n \<le> 90) \<or> (192 \<le> n \<and> n \<le> 222 \<and> n \<noteq> 215)
         then char_of (n + 32) else c)"

definition lower :: "string \<Rightarrow> string" where
  "lower text = map lower_char text"

text \<open>
  \<^verbatim>\<open>string.punctuation\<close>: the 32 ASCII characters with codes 33 to 47, 58 to 64, 91 to 96
  and 123 to 126.  \<open>translate_delete\<close> is \<^verbatim>\<open>text.translate(str.maketrans('', '', chars))\<close>.
\<close>

definition punctuation :: string where
  "punctuation = map char_of ([33..<48] @ [58..<65] @ [91..<97] @ [123..<127] :: nat list)"

definition translate_delete :: "string \<Rightarrow> string \<Rightarrow> string" where
  "translate_delete chars text = filter (\<lambda>c. c \<notin> set chars) text"

text \<open>
  \<^verbatim>\<open>str.split()\<close> without argument: the maximal runs of characters that are not white
  space.  \<open>split_from word text\<close> reads \<open>text\<close> with the run \<open>word\<close> already begun.
\<close>

fun split_from :: "string \<Rightarrow> string \<Rightarrow> string list" where
  "split_from word [] = (if word = [] then [] else [word])"
| "split_from word (c # cs) =
     (if isspace c then (if word = [] then split_from [] cs else word # split_from [] cs)
      else split_from (word @ [c]) cs)"

definition split :: "string \<Rightarrow> string list" where
  "split text = split_from [] text"

fun join :: "string \<Rightarrow> string list \<Rightarrow> string" where
  "join sep [] = []"
| "join sep [w] = w"
| "join sep (w # v # ws) = w @ sep @ join sep (v # ws)"

text \<open>
  Modelled from the spec: the class \<^verbatim>\<open>TextPreprocessing\<close> (its methods
  \<^verbatim>\<open>remove_emoji\<close>, \<^verbatim>\<open>remove_emoticons\<close> and \<^verbatim>\<open>remove_words\<close>) is missing from the sources.
  The specification says that normalization goes on by "conditionally stripping
  emoji/emoticon glyphs, conditionally removing tokens present in a loaded stop-word set".
  A glyph is one character, recognized by a table that is a parameter; a token is a run
  of characters between white space, and the text that remains is the kept tokens joined
  by one space.
\<close>

definition remove_emoji :: "(char \<Rightarrow> bool) \<Rightarrow> string \<Rightarrow> string" where
  "remove_emoji is_emoji text = filter (\<lambda>c. \<not> is_emoji c) text"

definition remove_emoticons :: "(char \<Rightarrow> bool) \<Rightarrow> string \<Rightarrow> string" where
  "remove_emoticons is_emoticon text = filter (\<lambda>c. \<not> is_emoticon c) text"

definition remove_words :: "string list \<Rightarrow> string \<Rightarrow> string" where
  "remove_words words text = join '' '' (filter (\<lambda>w. w \<notin> set words) (split text))"

section \<open>The lexical index configurer\<close>

datatype log_level = DEBUG | INFO | WARNING

datatype meta_value = Text string | Number nat

record document =
  page_content :: string
  metadata :: "(string \<times> meta_value) list"

datatype document_source = UPLOADED | EXTERNAL

text \<open>
  A document row of the database: \<open>chunk_ids\<close> holds the identifiers of its chunks,
  \<^verbatim>\<open>[chunk.id for chunk in doc.chunks]\<close>.
\<close>

record db_document =
  doc_id :: string
  source :: document_source
  file_id :: string
  embed_to_vs :: string
  chunk_ids :: "string list"
  embed_bm25 :: bool

record file_metadata =
  fm_id :: string
  fm_name :: string
  fm_mime_type :: string
  fm_path :: string

record conversion_result =
  export_to_markdown :: string
  pages :: nat

record vector_store =
  aget_by_ids :: "string list \<Rightarrow> error + document list"

datatype embeddings = Embeddings string

record embeddings_configuration =
  model_name :: string
  model_repr :: string

record bm25_configuration =
  embeddings_model :: embeddings_configuration
  removal_words_path :: "string option"
  enable_remove_emoji :: bool
  enable_remove_emoticon :: bool
  k :: nat

datatype bm25_retriever =
  BM25Retriever (indexed_documents: "document list") (indexed_tokens: "string list list") (top_k: nat)

text \<open>
  The keyword arguments of \<^verbatim>\<open>async_configure\<close>: a vector store configurer is its
  \<^verbatim>\<open>get_store\<close>; an embeddings configurer is its \<^verbatim>\<open>async_configure\<close>, which raises or
  leaves a table of models that \<^verbatim>\<open>get_model\<close> reads.  \<open>None\<close> stands for an argument
  that is absent or of another class.
\<close>

record kwargs =
  vs_configurer :: "(string \<Rightarrow> vector_store option) option"
  embeddings_configurer ::
    "(embeddings_configuration \<Rightarrow> error + (string \<Rightarrow> embeddings option)) option"

text \<open>
  The collaborators the rebuild calls: the document repository, the file service, the
  document converter, the semantic chunker, the environment variable, the loader of the
  stop words, the glyph tables, the constructor of the retriever and the clock.
\<close>

record collaborators =
  get_all_vs_embedded :: "db_document list"
  get_metadata_by_id :: "string \<Rightarrow> file_metadata option"
  convert_all :: "string list \<Rightarrow> error + conversion_result list"
  split_documents :: "embeddings \<Rightarrow> document list \<Rightarrow> document list"
  AGENT_CONFIG_PATH :: "string option"
  TextPreprocessing :: "string \<Rightarrow> error + string list"
  is_emoji :: "char \<Rightarrow> bool"
  is_emoticon :: "char \<Rightarrow> bool"
  from_documents :: "document list \<Rightarrow> (string \<Rightarrow> string list) \<Rightarrow> nat \<Rightarrow> error + bm25_retriever"
  get_datetime_now :: nat

text \<open>
  The fields \<^verbatim>\<open>_config\<close>, \<^verbatim>\<open>_retriever\<close> and \<^verbatim>\<open>_last_sync\<close> of the class, what it has
  logged, and the lists of rows it has handed to the repository's \<^verbatim>\<open>save_all\<close> in a
  task nobody awaits.
\<close>

record bm25_configurer =
  bm25_config :: "bm25_configuration option"
  retriever :: "bm25_retriever option"
  last_sync :: "nat option"
  logged :: "(log_level \<times> string) list"
  scheduled_saves :: "db_document list list"

definition BM25ConfigurerImpl :: bm25_configurer where
  "BM25ConfigurerImpl =
     \<lparr>bm25_config = None, retriever = None, last_sync = None, logged = [], scheduled_saves = []\<rparr>"

definition preprocess ::
  "collaborators \<Rightarrow> bm25_configuration \<Rightarrow> string list option \<Rightarrow> string \<Rightarrow> string list" where
  "preprocess env config helper text =
     (let normalized_text = translate_delete punctuation (lower text);
          normalized_text = (if enable_remove_emoji config
                             then remove_emoji (is_emoji env) normalized_text
                             else normalized_text);
          normalized_text = (if enable_remove_emoticon config
                             then remove_emoticons (is_emoticon env) normalized_text
                             else normalized_text);
          normalized_text = (case helper of
                               Some words \<Rightarrow> remove_words words normalized_text
                             | None \<Rightarrow> normalized_text)
      in split normalized_text)"

text \<open>
  A task group: the results of its tasks in the order of their creation, or the first
  exception among them.
\<close>

fun gather :: "(error + 'a list) list \<Rightarrow> error + 'a list" where
  "gather [] = Inr []"
| "gather (Inl e # tasks) = Inl e"
| "gather (Inr xs # tasks) =
     (case gather tasks of Inl e \<Rightarrow> Inl e | Inr ys \<Rightarrow> Inr (xs @ ys))"

text \<open>
  \<^verbatim>\<open>get_from_uploaded_docs\<close>: the files that the file service knows, converted; one
  passage for each pair of a file and a conversion result.
\<close>

definition get_from_uploaded_docs ::
  "collaborators \<Rightarrow> db_document list \<Rightarrow> (log_level \<times> string) list \<times> (error + document list)" where
  "get_from_uploaded_docs env documents =
     (let files = List.map_filter (\<lambda>doc. get_metadata_by_id env (file_id doc)) documents
      in ([(DEBUG, ''Collecting chunks from uploaded documents.'')],
          (case convert_all env (map fm_path files) of
             Inl e \<Rightarrow> Inl e
           | Inr results \<Rightarrow>
               Inr (map (\<lambda>(file, result).
                          \<lparr>page_content = export_to_markdown result,
                           metadata = [(''source'', Text (fm_name file)),
                                       (''id'', Text (fm_id file)),
                                       (''total_pages'', Number (pages result)),
                                       (''mime_type'', Text (fm_mime_type file)),
                                       (''path'', Text (fm_path file))]\<rparr>)
                        (zip files results)))))"

text \<open>
  The loop of \<^verbatim>\<open>get_from_external_docs\<close>: for each document, a warning when its store is
  not configured, a task that fetches its chunks otherwise.  The loop does not wait, so
  every warning is logged before any task runs.
\<close>

definition store_not_configured_warning :: "db_document \<Rightarrow> log_level \<times> string" where
  "store_not_configured_warning doc =
     (WARNING, ''Cannot use Document '' @ doc_id doc @ '' for the BM25 retriever. ''
                 @ ''Because vector store with name '' @ embed_to_vs doc @ '' ''
                 @ ''has not been configured yet.'')"

fun create_doc_tasks ::
  "(string \<Rightarrow> vector_store option) \<Rightarrow> db_document list
     \<Rightarrow> (log_level \<times> string) list \<times> (error + document list) list" where
  "create_doc_tasks get_store [] = ([], [])"
| "create_doc_tasks get_store (doc # documents) =
     (let store_name = embed_to_vs doc;
          (warnings, doc_tasks) = create_doc_tasks get_store documents
      in case get_store store_name of
           None \<Rightarrow>
             (store_not_configured_warning doc # warnings, doc_tasks)
         | Some vector_store \<Rightarrow>
             (warnings, aget_by_ids vector_store (chunk_ids doc) # doc_tasks))"

definition get_from_external_docs ::
  "(string \<Rightarrow> vector_store option) \<Rightarrow> db_document list
     \<Rightarrow> (log_level \<times> string) list \<times> (error + document list)" where
  "get_from_external_docs get_store documents =
     (let (warnings, doc_tasks) = create_doc_tasks get_store documents
      in ((DEBUG, ''Collecting chunks from external documents.'') # warnings,
          gather doc_tasks))"

text \<open>
  The stop words: none without a path; with one, the folder of the configuration must be
  set (\<^verbatim>\<open>get_config_folder_path\<close> raises otherwise) and the file is loaded.
\<close>

definition get_config_folder_path :: "collaborators \<Rightarrow> error + string" where
  "get_config_folder_path env =
     (case AGENT_CONFIG_PATH env of
        None \<Rightarrow> Inl (RuntimeError ''Missing the AGENT_CONFIG_PATH environment variable.'')
      | Some config_path \<Rightarrow> Inr config_path)"

definition Path :: "string \<Rightarrow> string \<Rightarrow> string" where
  "Path folder file = (if file \<noteq> [] \<and> hd file = CHR ''/'' then file else folder @ ''/'' @ file)"

definition load_helper :: "collaborators \<Rightarrow> bm25_configuration \<Rightarrow> error + string list option" where
  "load_helper env config =
     (case removal_words_path config of
        None \<Rightarrow> Inr None
      | Some file \<Rightarrow>
          if file = [] then Inr None
          else
            (case get_config_folder_path env of
               Inl e \<Rightarrow> Inl e
             | Inr folder \<Rightarrow>
                 (case TextPreprocessing env (Path folder file) of
                    Inl e \<Rightarrow> Inl e
                  | Inr words \<Rightarrow> Inr (Some words))))"

text \<open>
  The part of \<^verbatim>\<open>async_configure\<close> after the task group: with at least one task, the
  gathered passages are chunked and indexed, and the index, the configuration and the
  time of the build are stored; with no task, nothing but a line in the log.
\<close>

definition build_retriever ::
  "collaborators \<Rightarrow> bm25_configurer \<Rightarrow> bm25_configuration \<Rightarrow> embeddings \<Rightarrow> db_document list
     \<Rightarrow> nat \<Rightarrow> document list \<Rightarrow> bm25_configurer \<times> error option" where
  "build_retriever env self config model db_docs n_chunk_tasks docs =
     (if n_chunk_tasks > 0 then
        (let chunks = split_documents env model docs
         in case load_helper env config of
              Inl e \<Rightarrow> (self, Some e)
            | Inr helper \<Rightarrow>
                (let self = self\<lparr>logged := logged self
                              @ [(DEBUG, ''Constructing BM25 retriever from retrieved chunks...'')]\<rparr>
                 in case from_documents env chunks (preprocess env config helper) (k config) of
                      Inl e \<Rightarrow> (self, Some e)
                    | Inr r \<Rightarrow>
                        (self\<lparr>retriever := Some r,
                              bm25_config := Some config,
                              logged := logged self
                                @ [(INFO, ''Configured BM25 retriever successfully.'')],
                              scheduled_saves := scheduled_saves self
                                @ [map (\<lambda>doc. doc\<lparr>embed_bm25 := True\<rparr>) db_docs],
                              last_sync := Some (get_datetime_now env)\<rparr>,
                         None)))
      else
        (self\<lparr>logged := logged self
                 @ [(INFO, ''No chunks for initializing BM25 retriever. Skipping...'')]\<rparr>,
         None))"

text \<open>
  \<^verbatim>\<open>BM25ConfigurerImpl.async_configure\<close>: the configurer after the call and the exception
  that ended it, if any.
\<close>

definition async_configure ::
  "collaborators \<Rightarrow> bm25_configurer \<Rightarrow> bm25_configuration \<Rightarrow> kwargs
     \<Rightarrow> bm25_configurer \<times> error option" where
  "async_configure env self config kw =
     (let self = self\<lparr>logged := logged self @ [(INFO, ''Configuring BM25 retriever...'')]\<rparr>
      in case vs_configurer kw of
           None \<Rightarrow>
             (self, Some (ValueError ''Configure BM25 Retriever must provide a VectorStoreConfigurer.''))
         | Some get_store \<Rightarrow>
      (case embeddings_configurer kw of
           None \<Rightarrow>
             (self, Some (ValueError ''Configure BM25 Retriever must provide a EmbeddingsConfigurer.''))
         | Some configure_embeddings \<Rightarrow>
      (case configure_embeddings (embeddings_model config) of
           Inl e \<Rightarrow> (self, Some e)
         | Inr get_model \<Rightarrow>
      (case get_model (model_name (embeddings_model config)) of
           None \<Rightarrow>
             (self, Some (ValueError (''No '' @ model_repr (embeddings_model config)
                                        @ '' embeddings model has configured yet.'')))
         | Some model \<Rightarrow>
      (let db_docs = get_all_vs_embedded env
       in if length db_docs \<le> 0 then
            (self\<lparr>logged := logged self
                     @ [(INFO, ''No document for initializing BM25 retriever. Skipping...'')]\<rparr>,
             None)
          else
            (let uploaded_docs = filter (\<lambda>doc. source doc = UPLOADED) db_docs;
                 external_docs = filter (\<lambda>doc. source doc = EXTERNAL) db_docs;
                 chunk_tasks =
                   (if length uploaded_docs > 0
                    then [get_from_uploaded_docs env uploaded_docs] else [])
                   @ (if length external_docs > 0
                      then [get_from_external_docs get_store external_docs] else []);
                 self = self\<lparr>logged := logged self @ concat (map fst chunk_tasks)\<rparr>
             in case gather (map snd chunk_tasks) of
                  Inl e \<Rightarrow> (self, Some e)
                | Inr docs \<Rightarrow>
                    build_retriever env self config model db_docs (length chunk_tasks) docs))))))"

section \<open>Concrete inputs\<close>

text \<open>
  A configurer with a checkpointer and one tool but no image recognizer, whose model
  always answers; the constants; a turn with an attachment.
\<close>

definition example_configurer :: agent_configurer where
  "example_configurer =
     \<lparr>checkpointer = Some (Checkpointer ''memory''),
      tools = Some [''search_documents''],
      agent_name = ''assistant'',
      language = ''en'',
      respond_prompt = ''Answer the question.'',
      suggest_questions_prompt = ''Suggest questions.'',
      image_recognizer_configurer = None,
      chat_model = (\<lambda>prompt. Inr (AIMessage ''I cannot recognize the attachment.'' []))\<rparr>"

definition example_constants :: constants where
  "example_constants =
     \<lparr>SUPPORTED_LANGUAGE_DICT = (\<lambda>lang. if lang = ''vi'' then ''Vietnamese'' else ''English''),
      str_attachment = attachment_name\<rparr>"

definition example_state :: state where
  "example_state =
     \<lparr>messages = [HumanMessage ''What is on this picture?''],
      attachment = Some \<lparr>attachment_id = ''7'', attachment_name = ''cat.png'',
                         mime_type = ''image/png'', url = ''/files/7''\<rparr>\<rparr>"

text \<open>
  An agent that is configured, has its graph and is on.
\<close>

definition example_agent :: agent where
  "example_agent = (build_graph (init example_configurer))\<lparr>is_configured := True\<rparr>"

text \<open>
  A reconfiguration that succeeds and one that raises.
\<close>

definition reconfigure_ok :: configurer_action where
  "reconfigure_ok c = ([c], None)"

definition reconfigure_failing :: configurer_action where
  "reconfigure_failing c = ([], Some (ExternalFailure ''cannot load the configuration''))"

text \<open>
  The population of the specification's example: document A, embedded in the configured
  store \<open>s1\<close> with chunks \<open>c1\<close> and \<open>c2\<close>, and document B, embedded in a store that is not
  configured.  The store returns, for each identifier, a passage with that content; the
  chunker leaves passages as they are; the retriever's constructor tokenizes them, and
  raises when there is none: \<^verbatim>\<open>BM25Retriever.from_documents\<close> begins by unpacking
  \<^verbatim>\<open>zip(*...)\<close> over the documents, which fails on an empty list.
\<close>

definition document_A :: db_document where
  "document_A = \<lparr>doc_id = ''A'', source = EXTERNAL, file_id = ''fa'', embed_to_vs = ''s1'',
                  chunk_ids = [''c1'', ''c2''], embed_bm25 = False\<rparr>"

definition document_B :: db_document where
  "document_B = \<lparr>doc_id = ''B'', source = EXTERNAL, file_id = ''fb'', embed_to_vs = ''unknown'',
                  chunk_ids = [''c3''], embed_bm25 = False\<rparr>"

definition example_store :: vector_store where
  "example_store = \<lparr>aget_by_ids = (\<lambda>ids. Inr (map (\<lambda>i. \<lparr>page_content = i, metadata = []\<rparr>) ids))\<rparr>"

definition example_get_store :: "string \<Rightarrow> vector_store option" where
  "example_get_store name = (if name = ''s1'' then Some example_store else None)"

definition example_env :: collaborators where
  "example_env =
     \<lparr>get_all_vs_embedded = [document_A, document_B],
      get_metadata_by_id = (\<lambda>file. None),
      convert_all = (\<lambda>paths. Inr []),
      split_documents = (\<lambda>model docs. docs),
      AGENT_CONFIG_PATH = None,
      TextPreprocessing = (\<lambda>path. Inr [''the'']),
      is_emoji = (\<lambda>c. of_char c = (169 :: nat) \<or> of_char c = (174 :: nat)),
      is_emoticon = (\<lambda>c. False),
      from_documents =
        (\<lambda>docs pre n.
           if docs = [] then Inl (ValueError ''not enough values to unpack (expected 3, got 0)'')
           else Inr (BM25Retriever docs (map (\<lambda>d. pre (page_content d)) docs) n)),
      get_datetime_now = 42\<rparr>"

definition example_config :: bm25_configuration where
  "example_config =
     \<lparr>embeddings_model = \<lparr>model_name = ''minilm'', model_repr = ''name=minilm''\<rparr>,
      removal_words_path = None,
      enable_remove_emoji = True,
      enable_remove_emoticon = False,
      k = 4\<rparr>"

definition example_kwargs :: kwargs where
  "example_kwargs =
     \<lparr>vs_configurer = Some example_get_store,
      embeddings_configurer = Some (\<lambda>c. Inr (\<lambda>name. Some (Embeddings name)))\<rparr>"

text \<open>
  A configurer that holds an index built earlier, and the collaborators with document B
  as the whole population.
\<close>

definition example_indexed :: bm25_configurer where
  "example_indexed =
     BM25ConfigurerImpl
       \<lparr>bm25_config := Some example_config,
        retriever := Some (BM25Retriever [\<lparr>page_content = ''c1'', metadata = []\<rparr>] [[''c1'']] 4),
        last_sync := Some 7\<rparr>"

definition example_env_B :: collaborators where
  "example_env_B = example_env\<lparr>get_all_vs_embedded := [document_B]\<rparr>"


section \<open>Routing\<close>

lemma dropWhile_all_iff: "(\<forall>x\<in>set (dropWhile P s). P x) \<longleftrightarrow> (\<forall>x\<in>set s. P x)"
  by (induction s) auto

lemma strip_empty_iff: "strip s = [] \<longleftrightarrow> (\<forall>c\<in>set s. isspace c)"
  by (simp add: strip_def dropWhile_eq_Nil_conv dropWhile_all_iff)

lemmas graph_defs =
  build_graph_topology_def successors_def predecessors_def add_node_def add_edge_def
  add_conditional_edges_def StateGraph_def Let_def path_targets_def START_def END_def

text \<open>
  C1.  On a non-empty history the routing function answers \<^verbatim>\<open>suggest_questions\<close> exactly
  when the last message is not a human message or its stripped content is empty, and
  \<^verbatim>\<open>query_or_respond\<close> otherwise.  In the graph that \<^verbatim>\<open>build_graph\<close> builds, whatever the
  tools, the routing function sits on one conditional edge only, the one leaving \<open>START\<close>;
  it leads to the two model-calling nodes, and nothing leads back to \<open>START\<close>: the
  decision is taken once, before either node calls the model.
\<close>

theorem routing_function_selects:
  assumes "messages st \<noteq> []"
  shows "routing_function st =
           Inr (if \<not> is_HumanMessage (last (messages st))
                   \<or> strip (content (last (messages st))) = []
                then ''suggest_questions'' else ''query_or_respond'')
         \<and> filter (\<lambda>b. fst (snd b) = RoutingFunction) (branches (build_graph_topology ts))
             = [(START, RoutingFunction, None)]
         \<and> successors (build_graph_topology ts) START = [''suggest_questions'', ''query_or_respond'']
         \<and> predecessors (build_graph_topology ts) START = []"
  using assms
  by (cases "messages st") (auto simp add: routing_function_def graph_defs split: option.splits)

theorem routing_function_selects_witness:
  "messages example_state \<noteq> []
   \<and> routing_function example_state = Inr ''query_or_respond''
   \<and> routing_function (example_state\<lparr>messages := [HumanMessage ''hello'', HumanMessage [CHR 0x20, CHR 0x09]]\<rparr>)
       = Inr ''suggest_questions''
   \<and> routing_function (example_state\<lparr>messages := [HumanMessage ''hello'', ToolMessage ''cat'']\<rparr>)
       = Inr ''suggest_questions''"
  using routing_function_selects [of example_state]
    routing_function_selects [of "example_state\<lparr>messages := [HumanMessage ''hello'', HumanMessage [CHR 0x20, CHR 0x09]]\<rparr>"]
    routing_function_selects [of "example_state\<lparr>messages := [HumanMessage ''hello'', ToolMessage ''cat'']\<rparr>"]
  by (simp add: example_state_def strip_def isspace_def)

section \<open>The readiness guard\<close>

text \<open>
  C2.  The guard passes exactly when the agent is configured, has a graph and is neither
  off nor restarting.  Each violated condition, in the order of the tests, has its own
  message, and the four messages differ.  When the guard fails, each of the four
  turn-serving operations fails with the guard's error and the graph is not called; when
  it passes, each calls the graph.
\<close>

theorem turn_execution_guard:
  "(check_graph_available a = Inr () \<longleftrightarrow>
      is_configured a \<and> graph a \<noteq> None \<and> status a \<noteq> OFF \<and> status a \<noteq> RESTART)
   \<and> (\<not> is_configured a \<longrightarrow>
        check_graph_available a =
          Inl (RuntimeError ''The agent has not been configured yet. Please call `configure()` first.''))
   \<and> (is_configured a \<and> graph a = None \<longrightarrow>
        check_graph_available a =
          Inl (RuntimeError ''The agent graph has not been initialized yet. Please call `build_graph()` first.''))
   \<and> (is_configured a \<and> graph a \<noteq> None \<and> status a = OFF \<longrightarrow>
        check_graph_available a = Inl (RuntimeError ''The agent is turned off.''))
   \<and> (is_configured a \<and> graph a \<noteq> None \<and> status a = RESTART \<longrightarrow>
        check_graph_available a = Inl (RuntimeError ''The agent is restarting.''))
   \<and> distinct [''The agent has not been configured yet. Please call `configure()` first.'',
               ''The agent graph has not been initialized yet. Please call `build_graph()` first.'',
               ''The agent is turned off.'',
               ''The agent is restarting.'']
   \<and> (\<forall>e. check_graph_available a = Inl e \<longrightarrow>
          stream a input_state = Inl e \<and> astream a input_state = Inl e
          \<and> get_state_history a conf = Inl e \<and> get_state a conf = Inl e)
   \<and> (check_graph_available a = Inr () \<longrightarrow>
          stream a input_state = Inr (a\<lparr>trace := trace a @ [GraphStream input_state]\<rparr>)
          \<and> astream a input_state = Inr (a\<lparr>trace := trace a @ [GraphAStream input_state]\<rparr>)
          \<and> get_state_history a conf = Inr (a\<lparr>trace := trace a @ [GraphGetStateHistory conf]\<rparr>)
          \<and> get_state a conf = Inr (a\<lparr>trace := trace a @ [GraphGetState conf]\<rparr>))"
  by (simp add: check_graph_available_def stream_def astream_def get_state_history_def
      get_state_def)

theorem turn_execution_guard_witness:
  "stream (init example_configurer) example_state =
     Inl (RuntimeError ''The agent has not been configured yet. Please call `configure()` first.'')
   \<and> astream ((init example_configurer)\<lparr>is_configured := True\<rparr>) example_state =
     Inl (RuntimeError ''The agent graph has not been initialized yet. Please call `build_graph()` first.'')
   \<and> get_state (example_agent\<lparr>status := OFF\<rparr>) ''thread-1'' =
     Inl (RuntimeError ''The agent is turned off.'')
   \<and> get_state_history (example_agent\<lparr>status := RESTART\<rparr>) ''thread-1'' =
     Inl (RuntimeError ''The agent is restarting.'')
   \<and> check_graph_available example_agent = Inr ()
   \<and> stream example_agent example_state =
     Inr (example_agent\<lparr>trace := [GraphStream example_state]\<rparr>)"
  using turn_execution_guard [of "init example_configurer" example_state "''thread-1''"]
    turn_execution_guard [of "(init example_configurer)\<lparr>is_configured := True\<rparr>" example_state "''thread-1''"]
    turn_execution_guard [of "example_agent\<lparr>status := OFF\<rparr>" example_state "''thread-1''"]
    turn_execution_guard [of "example_agent\<lparr>status := RESTART\<rparr>" example_state "''thread-1''"]
    turn_execution_guard [of example_agent example_state "''thread-1''"]
  by (simp add: init_def example_agent_def build_graph_def check_graph_available_def)

section \<open>Deleting a thread\<close>

text \<open>
  C10.  \<^verbatim>\<open>delete_thread\<close> raises exactly when the configurer has no checkpointer, and
  hands the thread to the checkpointer otherwise; status, configuration flag and graph
  play no part: changing them changes neither the outcome nor the call.
\<close>

theorem delete_thread_bypasses_guard:
  "((\<exists>e. delete_thread a thread = Inl e) \<longleftrightarrow> checkpointer (configurer a) = None)
   \<and> (checkpointer (configurer a) = None \<longrightarrow>
        delete_thread a thread = Inl (RuntimeError ''Checkpointer is still not configured yet.''))
   \<and> (checkpointer (configurer a) \<noteq> None \<longrightarrow>
        delete_thread a thread = Inr (a\<lparr>trace := trace a @ [CheckpointerDeleteThread thread]\<rparr>))
   \<and> delete_thread (a\<lparr>status := s, is_configured := b, graph := g\<rparr>) thread
       = map_sum id (\<lambda>a'. a'\<lparr>status := s, is_configured := b, graph := g\<rparr>) (delete_thread a thread)"
  by (cases "checkpointer (configurer a)") (simp_all add: delete_thread_def)

theorem delete_thread_bypasses_guard_witness:
  "check_graph_available ((init example_configurer)\<lparr>status := OFF\<rparr>) \<noteq> Inr ()
   \<and> delete_thread ((init example_configurer)\<lparr>status := OFF\<rparr>) ''thread-1''
       = Inr ((init example_configurer)\<lparr>status := OFF, trace := [CheckpointerDeleteThread ''thread-1'']\<rparr>)
   \<and> delete_thread (example_agent\<lparr>configurer := example_configurer\<lparr>checkpointer := None\<rparr>\<rparr>) ''thread-1''
       = Inl (RuntimeError ''Checkpointer is still not configured yet.'')"
  using delete_thread_bypasses_guard [of "(init example_configurer)\<lparr>status := OFF\<rparr>" "''thread-1''"]
    delete_thread_bypasses_guard [of "example_agent\<lparr>configurer := example_configurer\<lparr>checkpointer := None\<rparr>\<rparr>" "''thread-1''"]
  by (simp add: init_def example_configurer_def check_graph_available_def delete_thread_def)

section \<open>The topology of the graph\<close>

text \<open>
  C8.  \<^verbatim>\<open>build_graph\<close> compiles the topology built from the configurer's tools.  The two
  tool nodes, their edges back to the node that called them and the conditional edges
  leading to them are there exactly when the tools are present and not empty: then
  \<^verbatim>\<open>query_or_respond\<close> leads to \<^verbatim>\<open>tools_1\<close> or to the end and \<^verbatim>\<open>tools_1\<close> back to it, and the
  same for \<^verbatim>\<open>suggest_questions\<close> and \<^verbatim>\<open>tools_2\<close>.  Without tools the graph has the two
  nodes only, no plain edge, and neither node has a successor: the turn ends after it.
\<close>

theorem build_graph_tools_iff:
  "graph (build_graph a) =
     Some \<lparr>builder = build_graph_topology (tools (configurer a)),
           graph_name = agent_name (configurer a),
           graph_checkpointer = checkpointer (configurer a)\<rparr>
   \<and> (''tools_1'' \<in> fst ` set (nodes (build_graph_topology ts)) \<longleftrightarrow> ts \<noteq> None \<and> ts \<noteq> Some [])
   \<and> (''tools_2'' \<in> fst ` set (nodes (build_graph_topology ts)) \<longleftrightarrow> ts \<noteq> None \<and> ts \<noteq> Some [])
   \<and> (''tools_1'' \<in> set (successors (build_graph_topology ts) ''query_or_respond'')
        \<longleftrightarrow> ts \<noteq> None \<and> ts \<noteq> Some [])
   \<and> (''tools_2'' \<in> set (successors (build_graph_topology ts) ''suggest_questions'')
        \<longleftrightarrow> ts \<noteq> None \<and> ts \<noteq> Some [])
   \<and> (edges (build_graph_topology ts) \<noteq> [] \<longleftrightarrow> ts \<noteq> None \<and> ts \<noteq> Some [])
   \<and> (ts \<noteq> None \<and> ts \<noteq> Some [] \<longrightarrow>
        map fst (nodes (build_graph_topology ts))
          = [''query_or_respond'', ''suggest_questions'', ''tools_1'', ''tools_2'']
        \<and> edges (build_graph_topology ts)
          = [(''tools_1'', ''query_or_respond''), (''tools_2'', ''suggest_questions'')]
        \<and> successors (build_graph_topology ts) ''query_or_respond'' = [''tools_1'', END]
        \<and> successors (build_graph_topology ts) ''suggest_questions'' = [''tools_2'', END]
        \<and> successors (build_graph_topology ts) ''tools_1'' = [''query_or_respond'']
        \<and> successors (build_graph_topology ts) ''tools_2'' = [''suggest_questions''])
   \<and> (ts = None \<or> ts = Some [] \<longrightarrow>
        map fst (nodes (build_graph_topology ts)) = [''query_or_respond'', ''suggest_questions'']
        \<and> edges (build_graph_topology ts) = []
        \<and> successors (build_graph_topology ts) ''query_or_respond'' = []
        \<and> successors (build_graph_topology ts) ''suggest_questions'' = [])"
proof (cases "ts \<noteq> None \<and> ts \<noteq> Some []")
  case True
  then obtain tls where "ts = Some tls" "tls \<noteq> []" by auto
  then show ?thesis by (simp add: graph_defs build_graph_def)
next
  case False
  then have "ts = None \<or> ts = Some []" by auto
  then show ?thesis by (auto simp add: graph_defs build_graph_def)
qed

theorem build_graph_tools_iff_witness:
  "successors (build_graph_topology (Some [''search_documents''])) ''query_or_respond'' = [''tools_1'', ''__end__'']
   \<and> successors (build_graph_topology (Some [''search_documents''])) ''tools_2'' = [''suggest_questions'']
   \<and> successors (build_graph_topology None) ''query_or_respond'' = []
   \<and> successors (build_graph_topology (Some [])) ''suggest_questions'' = []
   \<and> map fst (nodes (build_graph_topology (Some []))) = [''query_or_respond'', ''suggest_questions'']"
  using build_graph_tools_iff [of example_agent "Some [''search_documents'']"]
    build_graph_tools_iff [of example_agent None]
    build_graph_tools_iff [of example_agent "Some []"]
  by (simp add: END_def)

section \<open>Restarting\<close>

text \<open>
  C3, as amended.  When the forced reconfiguration returns without raising, \<^verbatim>\<open>restart\<close>
  yields exactly the three progress events, in order; the status is the one the agent
  had when \<^verbatim>\<open>restart\<close> was called while the first event is out, \<open>RESTART\<close> while the second
  is out, and \<open>ON\<close> at the third and when the generator ends.
\<close>

theorem restart_progress_events:
  assumes "snd (reconfigure (configurer a)) = None"
  shows "map fst (restart_yielded (restart reconfigure a))
           = [(''RESTARTING'', 0.0), (''RESTARTING'', 0.6), (''RESTARTED'', 1.0)]
         \<and> map (\<lambda>y. status (snd y)) (restart_yielded (restart reconfigure a)) = [status a, RESTART, ON]
         \<and> status (restart_finished (restart reconfigure a)) = ON
         \<and> restart_raised (restart reconfigure a) = None"
proof -
  from assms obtain cs where "reconfigure (configurer a) = (cs, None)"
    by (cases "reconfigure (configurer a)") simp
  then show ?thesis
    by (simp add: restart_def configure_def build_graph_def Let_def)
qed

theorem restart_progress_events_witness:
  "snd (reconfigure_ok (configurer (example_agent\<lparr>status := OFF\<rparr>))) = None
   \<and> map fst (restart_yielded (restart reconfigure_ok (example_agent\<lparr>status := OFF\<rparr>)))
        = [(''RESTARTING'', 0.0), (''RESTARTING'', 0.6), (''RESTARTED'', 1.0)]
   \<and> map (\<lambda>y. status (snd y)) (restart_yielded (restart reconfigure_ok (example_agent\<lparr>status := OFF\<rparr>)))
        = [OFF, RESTART, ON]
   \<and> status (restart_finished (restart reconfigure_ok (example_agent\<lparr>status := OFF\<rparr>))) = ON"
  using restart_progress_events [of reconfigure_ok "example_agent\<lparr>status := OFF\<rparr>"]
  by (simp add: reconfigure_ok_def)

text \<open>
  C3 as stated fails.  Called on an agent that is off, \<^verbatim>\<open>restart\<close> yields its first event
  while the status is still \<open>OFF\<close>; and when the reconfiguration raises, only the first
  event is yielded and the status stays \<open>RESTART\<close>.
\<close>

theorem restart_status_counterexample:
  "map fst (restart_yielded (restart reconfigure_ok (example_agent\<lparr>status := OFF\<rparr>)))
     = [(''RESTARTING'', 0.0), (''RESTARTING'', 0.6), (''RESTARTED'', 1.0)]
   \<and> status (snd (hd (restart_yielded (restart reconfigure_ok (example_agent\<lparr>status := OFF\<rparr>))))) = OFF
   \<and> map fst (restart_yielded (restart reconfigure_failing example_agent)) = [(''RESTARTING'', 0.0)]
   \<and> status (restart_finished (restart reconfigure_failing example_agent)) = RESTART"
  by (simp add: restart_def configure_def build_graph_def Let_def reconfigure_ok_def
      reconfigure_failing_def)

section \<open>Synchronizing the lexical index\<close>





section \<open>An attachment without a recognizer\<close>

text \<open>
  C7.  When the state carries an attachment and no recognition tool is configured, both
  nodes build the same prompt: the two language directives and the fixed sentence saying
  that the attachment cannot be recognized.  The only call either node makes is one call
  of the chat model with that prompt; it calls no tool.  What the model returns is the
  node's whole update: one message, appended to the history.  If the model raises, the
  node ends with that exception.
\<close>

theorem refusal_without_recognizer:
  assumes "attachment st \<noteq> None" and "recognizer_missing a"
  shows "let prompt = system_msgs cst a
                @ [HumanMessage (''You must only say the following sentence: I cannot recognize the attachment. ''
                                   @ ''Because I have not been configured the image recognizer yet.'')]
         in query_or_respond_template cst a st = Inr (map Fixed prompt)
          \<and> suggest_questions_template cst a st = Inr (map Fixed prompt)
          \<and> fst (query_or_respond cst a st) = [ChatModelInvoke prompt]
          \<and> fst (suggest_questions cst a st) = [ChatModelInvoke prompt]
          \<and> snd (query_or_respond cst a st)
              = map_sum id (\<lambda>response. [response]) (chat_model (configurer a) prompt)
          \<and> snd (suggest_questions cst a st)
              = map_sum id (\<lambda>response. [response]) (chat_model (configurer a) prompt)
          \<and> (\<forall>update. snd (query_or_respond cst a st) = Inr update
                        \<or> snd (suggest_questions cst a st) = Inr update \<longrightarrow>
                 length update = 1
                 \<and> messages (apply_update st update) = messages st @ [hd update])"
proof -
  have ainvoke_fixed: "ainvoke_template (map Fixed ms) h = ms" for ms h
    by (induction ms) (simp_all add: ainvoke_template_def)
  define prompt where "prompt = system_msgs cst a
                @ [HumanMessage (''You must only say the following sentence: I cannot recognize the attachment. ''
                                   @ ''Because I have not been configured the image recognizer yet.'')]"
  have q: "query_or_respond_template cst a st = Inr (map Fixed prompt)"
    using assms by (simp add: query_or_respond_template_def prompt_def)
  have s: "suggest_questions_template cst a st = Inr (map Fixed prompt)"
    using assms by (simp add: suggest_questions_template_def prompt_def)
  have c: "call_model a st (Inr (map Fixed prompt))
             = ([ChatModelInvoke prompt],
                map_sum id (\<lambda>response. [response]) (chat_model (configurer a) prompt))"
    by (cases "chat_model (configurer a) prompt")
       (simp_all add: call_model_def ainvoke_fixed Let_def)
  have u: "length update = 1 \<and> messages (apply_update st update) = messages st @ [hd update]"
    if "map_sum id (\<lambda>response. [response]) (chat_model (configurer a) prompt) = Inr update"
    for update
    using that by (cases "chat_model (configurer a) prompt") (auto simp add: apply_update_def)
  show ?thesis
    unfolding Let_def prompt_def [symmetric]
    using u by (simp add: q s c query_or_respond_def suggest_questions_def)
qed

theorem refusal_without_recognizer_witness:
  "attachment example_state \<noteq> None
   \<and> recognizer_missing example_agent
   \<and> query_or_respond example_constants example_agent example_state
       = ([ChatModelInvoke
             [SystemMessage ''You must answer in English.'',
              SystemMessage ''Queries for using tools purpose must be in English.'',
              HumanMessage ''You must only say the following sentence: I cannot recognize the attachment. Because I have not been configured the image recognizer yet.'']],
          Inr [AIMessage ''I cannot recognize the attachment.'' []])
   \<and> suggest_questions example_constants example_agent example_state
       = query_or_respond example_constants example_agent example_state"
  using refusal_without_recognizer [of example_state example_agent example_constants]
  by (simp add: example_state_def example_agent_def example_constants_def example_configurer_def
      recognizer_missing_def build_graph_def init_def system_msgs_def Let_def prod_eq_iff)

section \<open>Normalizing twice\<close>

lemma in_punctuation_iff:
  "c \<in> set punctuation \<longleftrightarrow>
     of_char c \<in> set ([33..<48] @ [58..<65] @ [91..<97] @ [123..<127] :: nat list)"
proof
  assume "c \<in> set punctuation"
  then obtain n where n: "n \<in> set ([33..<48] @ [58..<65] @ [91..<97] @ [123..<127])" "c = char_of n"
    unfolding punctuation_def by auto
  from n(1) have "n < 256" by auto
  then have "of_char (char_of n) = n" by simp
  with n show "of_char c \<in> set ([33..<48] @ [58..<65] @ [91..<97] @ [123..<127] :: nat list)" by simp
next
  assume "of_char c \<in> set ([33..<48] @ [58..<65] @ [91..<97] @ [123..<127] :: nat list)"
  then have "char_of (of_char c :: nat) \<in> set punctuation"
    unfolding punctuation_def set_map by (rule imageI)
  then show "c \<in> set punctuation" by simp
qed

lemma isspace_space: "isspace (CHR '' '')"
  by (simp add: isspace_def)

lemma space_not_punctuation: "CHR '' '' \<notin> set punctuation"
  by (simp add: in_punctuation_iff)

lemma lower_char_space: "lower_char (CHR '' '') = CHR '' ''"
  by (simp add: lower_char_def)

lemma lower_char_idem: "lower_char (lower_char c) = lower_char c"
  by (auto simp: lower_char_def Let_def)

lemma split_from_append:
  "\<forall>c\<in>set t. \<not> isspace c \<Longrightarrow> split_from w (t @ rest) = split_from (w @ t) rest"
  by (induction t arbitrary: w) simp_all

lemma split_from_tokens:
  "\<forall>c\<in>set w. \<not> isspace c \<Longrightarrow> t \<in> set (split_from w s) \<Longrightarrow>
     t \<noteq> [] \<and> (\<forall>c\<in>set t. \<not> isspace c) \<and> set t \<subseteq> set w \<union> set s"
proof (induction s arbitrary: w)
  case Nil
  then show ?case by (auto split: if_splits)
next
  case (Cons c cs)
  show ?case
  proof (cases "isspace c")
    case True
    with Cons.prems have "t = w \<and> w \<noteq> [] \<or> t \<in> set (split_from [] cs)"
      by (auto split: if_splits)
    then show ?thesis
    proof
      assume "t = w \<and> w \<noteq> []"
      with Cons.prems(1) show ?thesis by auto
    next
      assume "t \<in> set (split_from [] cs)"
      from Cons.IH[OF _ this] show ?thesis by auto
    qed
  next
    case False
    with Cons.prems have mem: "t \<in> set (split_from (w @ [c]) cs)" by simp
    from Cons.prems(1) False have "\<forall>x\<in>set (w @ [c]). \<not> isspace x" by simp
    from Cons.IH[OF this mem] show ?thesis by auto
  qed
qed

lemma split_tokens:
  "t \<in> set (split s) \<Longrightarrow> t \<noteq> [] \<and> (\<forall>c\<in>set t. \<not> isspace c) \<and> set t \<subseteq> set s"
  using split_from_tokens[of "[]" t s] by (simp add: split_def)

lemma split_join:
  "\<forall>t\<in>set ts. t \<noteq> [] \<and> (\<forall>c\<in>set t. \<not> isspace c) \<Longrightarrow> split (join '' '' ts) = ts"
proof (induction ts)
  case Nil
  show ?case by (simp add: split_def)
next
  case (Cons w ws)
  then have w: "w \<noteq> []" "\<forall>c\<in>set w. \<not> isspace c" by simp_all
  show ?case
  proof (cases ws)
    case Nil
    have "split_from [] (w @ []) = split_from ([] @ w) []"
      using w(2) by (rule split_from_append)
    with w(1) Nil show ?thesis by (simp add: split_def)
  next
    case (Cons v vs)
    from Cons.IH Cons.prems have IH: "split (join '' '' ws) = ws" by simp
    have "split_from [] (w @ ('' '' @ join '' '' ws)) = split_from ([] @ w) ('' '' @ join '' '' ws)"
      using w(2) by (rule split_from_append)
    also have "\<dots> = w # split_from [] (join '' '' ws)"
      using w(1) by (simp add: isspace_space)
    finally show ?thesis using IH Cons by (simp add: split_def)
  qed
qed

lemma set_join: "set (join sep ts) \<subseteq> set sep \<union> \<Union> (set ` set ts)"
  by (induction sep ts rule: join.induct) auto

lemma filter_unchanged: "\<forall>c\<in>set y. P c \<Longrightarrow> filter P y = y"
  by (induction y) auto

text \<open>
  C9.  With the options fixed, and the space being neither an emoji nor an emoticon glyph
  when the respective removal is on, normalizing the tokens of a first normalization,
  joined by single spaces, gives the same tokens again.
\<close>

theorem preprocess_idempotent:
  assumes emoji: "enable_remove_emoji config \<longrightarrow> \<not> is_emoji env (CHR '' '')"
      and emoticon: "enable_remove_emoticon config \<longrightarrow> \<not> is_emoticon env (CHR '' '')"
  shows "preprocess env config helper (join '' '' (preprocess env config helper x))
           = preprocess env config helper x"
proof -
  define good where "good c \<longleftrightarrow> lower_char c = c \<and> c \<notin> set punctuation
      \<and> (enable_remove_emoji config \<longrightarrow> \<not> is_emoji env c)
      \<and> (enable_remove_emoticon config \<longrightarrow> \<not> is_emoticon env c)" for c
  define clean where "clean y =
      (let n = translate_delete punctuation (lower y);
           n = (if enable_remove_emoji config then remove_emoji (is_emoji env) n else n)
       in if enable_remove_emoticon config then remove_emoticons (is_emoticon env) n else n)" for y
  define keep where "keep w \<longleftrightarrow> (case helper of Some ws \<Rightarrow> w \<notin> set ws | None \<Rightarrow> True)" for w
  have clean_good: "\<forall>c\<in>set (clean y). good c" for y
    by (auto simp: clean_def good_def Let_def translate_delete_def lower_def remove_emoji_def
        remove_emoticons_def lower_char_idem)
  have clean_id: "clean y = y" if "\<forall>c\<in>set y. good c" for y
  proof -
    from that have "map lower_char y = y" by (intro map_idI) (simp add: good_def)
    moreover from that have "filter (\<lambda>c. c \<notin> set punctuation) y = y"
      by (intro filter_unchanged) (simp add: good_def)
    moreover from that have "enable_remove_emoji config \<Longrightarrow> filter (\<lambda>c. \<not> is_emoji env c) y = y"
      by (intro filter_unchanged) (simp add: good_def)
    moreover from that have "enable_remove_emoticon config \<Longrightarrow> filter (\<lambda>c. \<not> is_emoticon env c) y = y"
      by (intro filter_unchanged) (simp add: good_def)
    ultimately show ?thesis
      by (simp add: clean_def Let_def translate_delete_def lower_def remove_emoji_def
          remove_emoticons_def)
  qed
  have tokens: "\<forall>t\<in>set (split y). t \<noteq> [] \<and> (\<forall>c\<in>set t. \<not> isspace c)" for y
    using split_tokens by blast
  have pre: "preprocess env config helper y = filter keep (split (clean y))" for y
  proof (cases helper)
    case None
    then show ?thesis by (simp add: preprocess_def clean_def keep_def Let_def)
  next
    case (Some ws)
    have "split (join '' '' (filter (\<lambda>w. w \<notin> set ws) (split (clean y))))
            = filter (\<lambda>w. w \<notin> set ws) (split (clean y))"
      by (rule split_join) (use tokens in auto)
    moreover have "keep = (\<lambda>w. w \<notin> set ws)" using Some by (auto simp: keep_def fun_eq_iff)
    ultimately show ?thesis using Some
      by (simp add: preprocess_def clean_def Let_def remove_words_def)
  qed
  let ?T = "filter keep (split (clean x))"
  have T_tokens: "\<forall>t\<in>set ?T. t \<noteq> [] \<and> (\<forall>c\<in>set t. \<not> isspace c)"
    using tokens by auto
  have T_good: "\<forall>t\<in>set ?T. \<forall>c\<in>set t. good c"
    using split_tokens clean_good by fastforce
  have space_good: "good (CHR '' '')"
    using emoji emoticon by (simp add: good_def lower_char_space space_not_punctuation)
  have "\<forall>c\<in>set (join '' '' ?T). good c"
    using set_join[of "'' ''" ?T] T_good space_good by auto
  then have "clean (join '' '' ?T) = join '' '' ?T" by (rule clean_id)
  moreover have "split (join '' '' ?T) = ?T" using T_tokens by (rule split_join)
  ultimately have "preprocess env config helper (join '' '' ?T) = filter keep ?T"
    by (simp add: pre)
  then show ?thesis by (simp add: pre)
qed

lemma example_normalized:
  "preprocess example_env example_config (Some [''the'']) ''Hello, the  World!'' = [''hello'', ''world'']"
  by code_simp

theorem preprocess_idempotent_witness:
  "\<not> is_emoji example_env (CHR '' '')
   \<and> \<not> is_emoticon example_env (CHR '' '')
   \<and> preprocess example_env example_config (Some [''the''])
        (join '' '' (preprocess example_env example_config (Some [''the'']) ''Hello, the  World!''))
       = [''hello'', ''world'']"
proof -
  have emoji: "enable_remove_emoji example_config \<longrightarrow> \<not> is_emoji example_env (CHR '' '')"
    by (simp add: example_env_def)
  have emoticon: "enable_remove_emoticon example_config \<longrightarrow> \<not> is_emoticon example_env (CHR '' '')"
    by (simp add: example_env_def)
  have "\<not> is_emoji example_env (CHR '' '')" "\<not> is_emoticon example_env (CHR '' '')"
    by (simp_all add: example_env_def)
  then show ?thesis
    using preprocess_idempotent [OF emoji emoticon, of "Some [''the'']" "''Hello, the  World!''"]
    by (simp add: example_normalized)
qed

section \<open>Gathering the chunks of external documents\<close>










section \<open>A population that yields no passage\<close>

lemma example_external_B:
  "get_from_external_docs example_get_store [document_B]
     = ([(DEBUG, ''Collecting chunks from external documents.''),
         (WARNING, ''Cannot use Document B for the BM25 retriever. Because vector store with name unknown has not been configured yet.'')],
        Inr [])"
  by (simp add: get_from_external_docs_def example_get_store_def document_B_def
      store_not_configured_warning_def)

text \<open>
  Two facts about the libraries are assumed below: the chunker gives no chunk when it is
  given no passage, and the constructor of the retriever raises when it is given no
  chunk.  Under them, the tail of the rebuild does not touch the index when no passage was
  gathered: with a task, the constructor's exception ends it before anything is assigned;
  without one, only a line is logged.
\<close>

lemma build_retriever_no_chunks:
  assumes chunker: "\<And>model. split_documents env model [] = []"
      and constructor: "\<And>pre n. \<exists>e. from_documents env [] pre n = Inl e"
  shows "retriever (fst (build_retriever env s config model db_docs n [])) = retriever s"
    and "last_sync (fst (build_retriever env s config model db_docs n [])) = last_sync s"
    and "bm25_config (fst (build_retriever env s config model db_docs n [])) = bm25_config s"
    and "scheduled_saves (fst (build_retriever env s config model db_docs n [])) = scheduled_saves s"
proof -
  have raised: "\<exists>e. from_documents env [] (preprocess env config helper) (k config) = Inl e" for helper
    by (rule constructor)
  have "retriever (fst (build_retriever env s config model db_docs n [])) = retriever s
        \<and> last_sync (fst (build_retriever env s config model db_docs n [])) = last_sync s
        \<and> bm25_config (fst (build_retriever env s config model db_docs n [])) = bm25_config s
        \<and> scheduled_saves (fst (build_retriever env s config model db_docs n [])) = scheduled_saves s"
  proof (cases "n > 0")
    case False
    then show ?thesis by (simp add: build_retriever_def)
  next
    case True
    show ?thesis
    proof (cases "load_helper env config")
      case (Inl e)
      with True show ?thesis by (simp add: build_retriever_def chunker)
    next
      case (Inr helper)
      from raised [of helper] obtain e where
        "from_documents env [] (preprocess env config helper) (k config) = Inl e" ..
      with True Inr show ?thesis by (simp add: build_retriever_def chunker)
    qed
  qed
  then show "retriever (fst (build_retriever env s config model db_docs n [])) = retriever s"
    and "last_sync (fst (build_retriever env s config model db_docs n [])) = last_sync s"
    and "bm25_config (fst (build_retriever env s config model db_docs n [])) = bm25_config s"
    and "scheduled_saves (fst (build_retriever env s config model db_docs n [])) = scheduled_saves s"
    by simp_all
qed

text \<open>
  C4.  Let the chunker give no chunk for no passage and the constructor of the retriever
  raise on an empty list, as the libraries do.  Then for every population from which no
  passage is gathered (the UPLOADED branch, when it runs, and the EXTERNAL branch both
  return the empty list, which includes the empty population) the rebuild leaves the
  retriever and the time of the last build as they were, and also the stored
  configuration and the scheduled saves.
\<close>

theorem zero_passages_leave_index_unchanged:
  assumes chunker: "\<And>model. split_documents env model [] = []"
      and constructor: "\<And>pre n. \<exists>e. from_documents env [] pre n = Inl e"
      and uploaded:
        "filter (\<lambda>doc. source doc = UPLOADED) (get_all_vs_embedded env) \<noteq> [] \<Longrightarrow>
           snd (get_from_uploaded_docs env
                  (filter (\<lambda>doc. source doc = UPLOADED) (get_all_vs_embedded env))) = Inr []"
      and external:
        "\<And>get_store. vs_configurer kw = Some get_store \<Longrightarrow>
           snd (get_from_external_docs get_store
                  (filter (\<lambda>doc. source doc = EXTERNAL) (get_all_vs_embedded env))) = Inr []"
  shows "retriever (fst (async_configure env self config kw)) = retriever self
         \<and> last_sync (fst (async_configure env self config kw)) = last_sync self
         \<and> bm25_config (fst (async_configure env self config kw)) = bm25_config self
         \<and> scheduled_saves (fst (async_configure env self config kw)) = scheduled_saves self"
proof (cases "vs_configurer kw")
  case None
  then show ?thesis by (simp add: async_configure_def Let_def)
next
  case get_store: (Some get_store)
  note ext = external [OF get_store]
  note tail = build_retriever_no_chunks [OF chunker constructor]
  show ?thesis
  proof (cases "embeddings_configurer kw")
    case None
    with get_store show ?thesis by (simp add: async_configure_def Let_def)
  next
    case ce: (Some configure_embeddings)
    show ?thesis
    proof (cases "configure_embeddings (embeddings_model config)")
      case (Inl e)
      with get_store ce show ?thesis by (simp add: async_configure_def Let_def)
    next
      case gm: (Inr get_model)
      show ?thesis
      proof (cases "get_model (model_name (embeddings_model config))")
        case None
        with get_store ce gm show ?thesis by (simp add: async_configure_def Let_def)
      next
        case model: (Some model)
        show ?thesis
        proof (cases "filter (\<lambda>doc. source doc = UPLOADED) (get_all_vs_embedded env) = []")
          case True
          with get_store ce gm model ext show ?thesis
            by (simp add: async_configure_def Let_def tail)
        next
          case False
          with get_store ce gm model ext uploaded [OF False] show ?thesis
            by (simp add: async_configure_def Let_def tail)
        qed
      qed
    qed
  qed
qed

theorem zero_passages_leave_index_unchanged_witness:
  "snd (get_from_external_docs example_get_store [document_B]) = Inr []
   \<and> retriever (fst (async_configure example_env_B example_indexed example_config example_kwargs))
       = Some (BM25Retriever [\<lparr>page_content = ''c1'', metadata = []\<rparr>] [[''c1'']] 4)
   \<and> last_sync (fst (async_configure example_env_B example_indexed example_config example_kwargs))
       = Some 7"
proof -
  have chunker: "split_documents example_env_B model [] = []" for model
    by (simp add: example_env_B_def example_env_def)
  have constructor: "\<exists>e. from_documents example_env_B [] pre n = Inl e" for pre n
    by (simp add: example_env_B_def example_env_def)
  have population: "get_all_vs_embedded example_env_B = [document_B]"
    by (simp add: example_env_B_def)
  have src: "source document_B = EXTERNAL"
    by (simp add: document_B_def)
  have uploaded:
    "filter (\<lambda>doc. source doc = UPLOADED) (get_all_vs_embedded example_env_B) \<noteq> [] \<Longrightarrow>
       snd (get_from_uploaded_docs example_env_B
              (filter (\<lambda>doc. source doc = UPLOADED) (get_all_vs_embedded example_env_B))) = Inr []"
    by (simp add: population src)
  have external:
    "snd (get_from_external_docs get_store
            (filter (\<lambda>doc. source doc = EXTERNAL) (get_all_vs_embedded example_env_B))) = Inr []"
    if "vs_configurer example_kwargs = Some get_store" for get_store
  proof -
    from that have "get_store = example_get_store" by (simp add: example_kwargs_def)
    then show ?thesis by (simp add: population src example_external_B)
  qed
  have before: "retriever example_indexed
                  = Some (BM25Retriever [\<lparr>page_content = ''c1'', metadata = []\<rparr>] [[''c1'']] 4)"
    "last_sync example_indexed = Some 7"
    by (simp_all add: example_indexed_def BM25ConfigurerImpl_def)
  from zero_passages_leave_index_unchanged
         [of example_env_B example_kwargs example_indexed example_config,
          OF chunker constructor uploaded external]
  show ?thesis by (simp add: before example_external_B)
qed

text \<open>
  The same population with any constructor of the retriever: the constructor is called on
  the empty list, and the rebuild stores what it returns or raises what it raises.  With
  an empty population the rebuild is a no-op whatever the libraries do.
\<close>

lemma zero_passages_reach_constructor:
  "retriever (fst (async_configure (example_env\<lparr>get_all_vs_embedded := [document_B], from_documents := fd\<rparr>)
                     self example_config example_kwargs))
     = (case fd [] (preprocess (example_env\<lparr>get_all_vs_embedded := [document_B], from_documents := fd\<rparr>)
                      example_config None) 4 of
          Inl e \<Rightarrow> retriever self
        | Inr r \<Rightarrow> Some r)
   \<and> snd (async_configure (example_env\<lparr>get_all_vs_embedded := [document_B], from_documents := fd\<rparr>)
                     self example_config example_kwargs)
     = (case fd [] (preprocess (example_env\<lparr>get_all_vs_embedded := [document_B], from_documents := fd\<rparr>)
                      example_config None) 4 of
          Inl e \<Rightarrow> Some e
        | Inr r \<Rightarrow> None)"
proof -
  have src: "source document_B = EXTERNAL"
    by (simp add: document_B_def)
  have sd: "split_documents example_env m docs = docs" for m docs
    by (simp add: example_env_def)
  have kw: "vs_configurer example_kwargs = Some example_get_store"
    "embeddings_configurer example_kwargs = Some (\<lambda>c. Inr (\<lambda>name. Some (Embeddings name)))"
    by (simp_all add: example_kwargs_def)
  have cf: "removal_words_path example_config = None" "k example_config = 4"
    by (simp_all add: example_config_def)
  show ?thesis
    by (simp add: async_configure_def build_retriever_def load_helper_def src sd kw cf
        example_external_B Let_def split: sum.splits)
qed

lemma rebuild_empty_population_noop:
  assumes "get_all_vs_embedded env = []"
  shows "retriever (fst (async_configure env self config kw)) = retriever self
         \<and> last_sync (fst (async_configure env self config kw)) = last_sync self
         \<and> bm25_config (fst (async_configure env self config kw)) = bm25_config self"
  using assms
  by (simp add: async_configure_def Let_def split: option.splits sum.splits)

end
